theory Spec2Isabelle
  imports Main
begin

section \<open>Strings and the Python runtime\<close>

text \<open>
  A Python \<open>str\<close> is a sequence of Unicode code points, so a text is a list of
  code points (natural numbers).  Category names are only ever compared for
  equality; they are kept as HOL strings (the bytes of their UTF-8 form).
\<close>

type_synonym pystr = "nat list"

definition ascii :: "string \<Rightarrow> pystr" where
  "ascii s = map of_char s"

text \<open>
  What the classifier takes from the interpreter and not from the repository:
  \<open>str.lower\<close>, the character classes behind \<open>\w\<close> (\<open>str.isalnum\<close> or an
  underscore) and \<open>\s\<close> (\<open>str.isspace\<close>, which is also what \<open>str.split()\<close>
  splits at), and the element that comes first when a \<open>set\<close> of strings is turned
  into a list (it depends on the hash seed of the process).
\<close>

record runtime =
  str_lower :: "pystr \<Rightarrow> pystr"
  is_alnum :: "nat \<Rightarrow> bool"
  is_space :: "nat \<Rightarrow> bool"
  set_first :: "string list \<Rightarrow> string"

datatype exn = IndexError | OverflowError

subsection \<open>The runtime on ASCII\<close>

definition ascii_lower :: "nat \<Rightarrow> nat" where
  "ascii_lower c = (if 65 \<le> c \<and> c \<le> 90 then c + 32 else c)"

definition ascii_alnum :: "nat \<Rightarrow> bool" where
  "ascii_alnum c = ((48 \<le> c \<and> c \<le> 57) \<or> (65 \<le> c \<and> c \<le> 90) \<or> (97 \<le> c \<and> c \<le> 122))"

definition ascii_space :: "nat \<Rightarrow> bool" where
  "ascii_space c = ((9 \<le> c \<and> c \<le> 13) \<or> (28 \<le> c \<and> c \<le> 32))"

definition ascii_runtime :: runtime where
  "ascii_runtime = \<lparr>str_lower = map ascii_lower, is_alnum = ascii_alnum,
                     is_space = ascii_space, set_first = hd\<rparr>"

text \<open>Every Python runtime returns from a non-empty set one of its elements.\<close>

definition set_first_ok :: "runtime \<Rightarrow> bool" where
  "set_first_ok R = (\<forall>xs. xs \<noteq> [] \<longrightarrow> set_first R xs \<in> set xs)"

subsection \<open>String operations\<close>

text \<open>\<open>str.split()\<close> without arguments: the maximal runs of non-whitespace.\<close>

fun str_split :: "(nat \<Rightarrow> bool) \<Rightarrow> pystr \<Rightarrow> pystr list" where
  "str_split sp [] = []"
| "str_split sp [c] = (if sp c then [] else [[c]])"
| "str_split sp (c # d # cs) =
     (if sp c then str_split sp (d # cs)
      else if sp d then [c] # str_split sp (d # cs)
      else (case str_split sp (d # cs) of
              [] \<Rightarrow> [[c]]
            | w # ws \<Rightarrow> (c # w) # ws))"

text \<open>\<open>' '.join(ws)\<close>\<close>

fun str_join :: "pystr list \<Rightarrow> pystr" where
  "str_join [] = []"
| "str_join [w] = w"
| "str_join (w # v # ws) = w @ [32] @ str_join (v # ws)"

fun startswith :: "pystr \<Rightarrow> pystr \<Rightarrow> bool" where
  "startswith s [] = True"
| "startswith [] (p # ps) = False"
| "startswith (c # cs) (p # ps) = (c = p \<and> startswith cs ps)"

text \<open>\<open>k in s\<close> on strings: \<open>k\<close> occurs in \<open>s\<close> as a contiguous substring.\<close>

fun str_in :: "pystr \<Rightarrow> pystr \<Rightarrow> bool" where
  "str_in k [] = (k = [])"
| "str_in k (c # cs) = (startswith (c # cs) k \<or> str_in k cs)"

section \<open>config.py\<close>

abbreviation "POSITIVE \<equiv> ''POSITIVE''"
abbreviation "NEUTRAL_TIRED \<equiv> ''NEUTRAL_TIRED''"
abbreviation "SAD_LOW \<equiv> ''SAD_LOW''"
abbreviation "ANGRY_FRUSTRATED \<equiv> ''ANGRY_FRUSTRATED''"
abbreviation "ANXIOUS_STRESSED \<equiv> ''ANXIOUS_STRESSED''"
abbreviation "HEAVY_DEEP \<equiv> ''HEAVY_DEEP''"

definition MOOD_CATEGORIES :: "string list" where
  "MOOD_CATEGORIES =
     [POSITIVE, NEUTRAL_TIRED, SAD_LOW, ANGRY_FRUSTRATED, ANXIOUS_STRESSED, HEAVY_DEEP]"

text \<open>The button labels, each an emoji (for the last one with a variation selector),
  a space and a word.\<close>

definition MOOD_BUTTONS :: "(pystr \<times> string) list" where
  "MOOD_BUTTONS =
     [(128516 # ascii '' Happy'', POSITIVE),
      (128578 # ascii '' Okay'', NEUTRAL_TIRED),
      (128564 # ascii '' Tired'', NEUTRAL_TIRED),
      (128532 # ascii '' Sad'', SAD_LOW),
      (128545 # ascii '' Angry'', ANGRY_FRUSTRATED),
      (128560 # ascii '' Anxious'', ANXIOUS_STRESSED),
      (128371 # 65039 # ascii '' Empty'', HEAVY_DEEP)]"

definition CHECKIN_COOLDOWN_SECONDS :: int where
  "CHECKIN_COOLDOWN_SECONDS = 7 * 24 * 60 * 60"

section \<open>classifier.py\<close>

type_synonym keyword_table = "(string \<times> pystr list) list"

text \<open>Priority order (higher index = higher priority).\<close>

definition priority :: "string list" where
  "priority =
     [POSITIVE, NEUTRAL_TIRED, ANXIOUS_STRESSED, ANGRY_FRUSTRATED, SAD_LOW, HEAVY_DEEP]"

text \<open>A missing keyword file gives the empty table.\<close>

definition load_keywords :: "keyword_table option \<Rightarrow> keyword_table" where
  "load_keywords file = (case file of None \<Rightarrow> [] | Some table \<Rightarrow> table)"

definition is_word :: "runtime \<Rightarrow> nat \<Rightarrow> bool" where
  "is_word R c = (is_alnum R c \<or> c = 95)"

text \<open>Lowercase, every character outside \<open>\w\<close> and \<open>\s\<close> replaced by a space,
  runs of whitespace collapsed to one space and trimmed.\<close>

definition normalize_text :: "runtime \<Rightarrow> pystr \<Rightarrow> pystr" where
  "normalize_text R text =
     (let text1 = str_lower R text;
          text2 = map (\<lambda>c. if \<not> is_word R c \<and> \<not> is_space R c then 32 else c) text1
      in str_join (str_split (is_space R) text2))"

definition classify_button_mood :: "pystr \<Rightarrow> string option" where
  "classify_button_mood button_label = map_of MOOD_BUTTONS button_label"

text \<open>The test of one keyword against the normalized text and its words.\<close>

definition keyword_matches :: "runtime \<Rightarrow> pystr \<Rightarrow> pystr list \<Rightarrow> pystr \<Rightarrow> bool" where
  "keyword_matches R normalized words keyword =
     (let keyword_normalized = normalize_text R keyword
      in str_in keyword_normalized normalized \<or>
         list_ex (\<lambda>kw. kw \<in> set words) (str_split (is_space R) keyword_normalized))"

text \<open>The categories collected by the loop over the table, in the order of the table.\<close>

definition matched_categories :: "runtime \<Rightarrow> keyword_table \<Rightarrow> pystr \<Rightarrow> string list" where
  "matched_categories R keywords user_text =
     (let normalized = normalize_text R user_text;
          words = str_split (is_space R) normalized
      in remdups (map fst (filter (\<lambda>(category, kws).
                                     list_ex (keyword_matches R normalized words) kws)
                                  keywords)))"

definition classify_text_mood :: "runtime \<Rightarrow> keyword_table \<Rightarrow> pystr \<Rightarrow> exn + string" where
  "classify_text_mood R keywords user_text =
     (let matched = matched_categories R keywords user_text
      in if matched = [] then Inr NEUTRAL_TIRED
         else (case find (\<lambda>category. category \<in> set matched) (rev priority) of
                 Some category \<Rightarrow> Inr category
               | None \<Rightarrow> (case matched of
                            [] \<Rightarrow> Inl IndexError
                          | _ # _ \<Rightarrow> Inr (set_first R matched))))"

definition classify :: "runtime \<Rightarrow> keyword_table \<Rightarrow> pystr \<Rightarrow> bool \<Rightarrow> exn + string" where
  "classify R keywords mood_input is_button =
     (if is_button then
        (case classify_button_mood mood_input of
           None \<Rightarrow> Inr NEUTRAL_TIRED
         | Some category \<Rightarrow> if category \<noteq> [] then Inr category else Inr NEUTRAL_TIRED)
      else classify_text_mood R keywords mood_input)"

text \<open>The condition of the loop for one keyword, on the text itself.\<close>

definition text_matches :: "runtime \<Rightarrow> pystr \<Rightarrow> pystr \<Rightarrow> bool" where
  "text_matches R user_text keyword =
     keyword_matches R (normalize_text R user_text)
       (str_split (is_space R) (normalize_text R user_text)) keyword"

subsection \<open>The order and the text variants the specification speaks of\<close>

text \<open>The priority order as the specification writes it, highest first.\<close>

definition spec_priority_order :: "string list" where
  "spec_priority_order =
     [HEAVY_DEEP, SAD_LOW, ANGRY_FRUSTRATED, ANXIOUS_STRESSED, NEUTRAL_TIRED, POSITIVE]"

fun index_of :: "'a list \<Rightarrow> 'a \<Rightarrow> nat" where
  "index_of [] x = 0"
| "index_of (y # ys) x = (if x = y then 0 else Suc (index_of ys x))"

text \<open>ASCII punctuation: what the regular expression \<open>[^\w\s]\<close> matches below 128.\<close>

definition ascii_punct :: "nat \<Rightarrow> bool" where
  "ascii_punct c = (c < 128 \<and> \<not> ascii_alnum c \<and> c \<noteq> 95 \<and> \<not> ascii_space c)"

text \<open>
  Two texts that differ only in letter casing or in punctuation characters, read
  as the specification's words suggest: they are the same once lowercased and
  with every punctuation character deleted.
\<close>

definition differ_only_in_case_or_punctuation :: "pystr \<Rightarrow> pystr \<Rightarrow> bool" where
  "differ_only_in_case_or_punctuation t1 t2 =
     (filter (\<lambda>c. \<not> ascii_punct c) (map ascii_lower t1) =
      filter (\<lambda>c. \<not> ascii_punct c) (map ascii_lower t2))"

text \<open>
  The narrower relation, for any runtime.  A character of the lowercased text is
  whitespace, punctuation (what \<open>[^\w\s]\<close> matches) or a word character.  The
  two lowercased texts are read side by side, punctuation skipped: the other
  characters must be the same in the same order, and where two word characters
  follow each other directly, punctuation stands between them in both texts or in
  neither.  The flags say whether the last character read was a word character
  (\<open>w\<close>) and whether punctuation has been skipped since, in the first text
  (\<open>p\<close>) and in the second (\<open>q\<close>).
\<close>

definition is_punct :: "runtime \<Rightarrow> nat \<Rightarrow> bool" where
  "is_punct R c = (\<not> is_word R c \<and> \<not> is_space R c)"

fun punct_variant :: "runtime \<Rightarrow> bool \<Rightarrow> bool \<Rightarrow> bool \<Rightarrow> pystr \<Rightarrow> pystr \<Rightarrow> bool" where
  "punct_variant R w p q [] [] = True"
| "punct_variant R w p q (a # s) [] = (is_punct R a \<and> punct_variant R w True q s [])"
| "punct_variant R w p q [] (b # t) = (is_punct R b \<and> punct_variant R w p True [] t)"
| "punct_variant R w p q (a # s) (b # t) =
     (if is_punct R a then punct_variant R w True q s (b # t)
      else if is_punct R b then punct_variant R w p True (a # s) t
      else a = b \<and> (if w \<and> \<not> is_space R a then p = q else True) \<and>
           punct_variant R (\<not> is_space R a) False False s t)"

definition case_punct_variant :: "runtime \<Rightarrow> pystr \<Rightarrow> pystr \<Rightarrow> bool" where
  "case_punct_variant R t1 t2 =
     punct_variant R False False False (str_lower R t1) (str_lower R t2)"

text \<open>
  For the proofs: a character sequence that begins inside a word, two sequences
  that split into the same words (and, after a word character, begin alike), and
  a sequence with a space put in front.
\<close>

definition starts_word :: "(nat \<Rightarrow> bool) \<Rightarrow> pystr \<Rightarrow> bool" where
  "starts_word sp x = (case x of [] \<Rightarrow> False | c # cs \<Rightarrow> \<not> sp c)"

definition same_words :: "(nat \<Rightarrow> bool) \<Rightarrow> bool \<Rightarrow> pystr \<Rightarrow> pystr \<Rightarrow> bool" where
  "same_words sp w x y =
     (str_split sp x = str_split sp y \<and> (w \<longrightarrow> starts_word sp x = starts_word sp y))"

definition pad :: "bool \<Rightarrow> pystr \<Rightarrow> pystr" where
  "pad p x = (if p then 32 # x else x)"

text \<open>What \<open>re.sub(r'[^\w\s]', ' ', text)\<close> does to one character.\<close>

definition replace_punct :: "runtime \<Rightarrow> nat \<Rightarrow> nat" where
  "replace_punct R c = (if \<not> is_word R c \<and> \<not> is_space R c then 32 else c)"

section \<open>content\_loader.py\<close>

record category_data =
  texts :: "string list option"
  memes :: "string list option"
  videos :: "string list option"

type_synonym response_catalog = "(string \<times> category_data) list"

record content =
  text' :: "string option"
  meme :: "string option"
  video :: "string option"
  text_id :: "string option"

text \<open>
  The media store: the string of the path \<open>MEDIA_DIR/memes/<filename>\<close> and
  whether a file is there.
\<close>

record media_store =
  memes_path :: "string \<Rightarrow> string"
  path_exists :: "string \<Rightarrow> bool"

text \<open>\<open>random.choice\<close> on a non-empty list, \<open>r\<close> being the number drawn.\<close>

definition random_choice :: "nat \<Rightarrow> 'a list \<Rightarrow> 'a" where
  "random_choice r xs = xs ! (r mod length xs)"

definition get_content_for_category ::
  "media_store \<Rightarrow> nat \<Rightarrow> nat \<Rightarrow> nat \<Rightarrow> response_catalog \<Rightarrow> string \<Rightarrow> content" where
  "get_content_for_category fs r_text r_meme r_video responses category =
     (case map_of responses category of
        None \<Rightarrow>
          \<lparr>text' = Some ''Thanks for checking in. Take care of yourself.'',
           meme = None, video = None, text_id = Some ''default''\<rparr>
      | Some data \<Rightarrow>
          (let result0 = \<lparr>text' = None, meme = None, video = None, text_id = None\<rparr>;
               result1 =
                 (case texts data of
                    None \<Rightarrow> result0
                  | Some ts \<Rightarrow>
                      if ts \<noteq> []
                      then result0\<lparr>text' := Some (random_choice r_text ts),
                                   text_id := Some (category @ ''_text'')\<rparr>
                      else result0);
               result2 =
                 (if category \<in> set [POSITIVE, NEUTRAL_TIRED] then
                    (case memes data of
                       None \<Rightarrow> result1
                     | Some ms \<Rightarrow>
                         if ms \<noteq> [] then
                           (let meme_filename = random_choice r_meme ms;
                                meme_path = memes_path fs meme_filename
                            in if path_exists fs meme_path
                               then result1\<lparr>meme := Some meme_path\<rparr>
                               else result1\<lparr>meme := None\<rparr>)
                         else result1)
                  else result1);
               result3 =
                 (if category \<in> set [SAD_LOW, ANXIOUS_STRESSED] then
                    (case videos data of
                       None \<Rightarrow> result2
                     | Some vs \<Rightarrow>
                         if vs \<noteq> []
                         then result2\<lparr>video := Some (random_choice r_video vs)\<rparr>
                         else result2)
                  else result2)
           in result3))"

definition defaults :: "(string \<times> string) list" where
  "defaults =
     [(POSITIVE, ''That's wonderful! Keep riding this wave and enjoy the moment.''),
      (NEUTRAL_TIRED, ''It's okay to feel neutral. Rest when you need it.''),
      (SAD_LOW, ''I hear you. You're not alone in this. One step at a time.''),
      (ANGRY_FRUSTRATED, ''Your feelings are valid. Take a breath and give yourself space.''),
      (ANXIOUS_STRESSED, ''Breathe. You're safe right now. One moment at a time.''),
      (HEAVY_DEEP,
       ''I'm glad you're here. Please reach out to someone you trust. Your life matters.'')]"

definition get_default_text :: "string \<Rightarrow> string" where
  "get_default_text category =
     (case map_of defaults category of
        Some t \<Rightarrow> t
      | None \<Rightarrow> ''Thanks for checking in with me.'')"

definition get_response_for_mood ::
  "media_store \<Rightarrow> nat \<Rightarrow> nat \<Rightarrow> nat \<Rightarrow> response_catalog \<Rightarrow> string \<Rightarrow> content" where
  "get_response_for_mood fs r_text r_meme r_video responses category =
     (let content = get_content_for_category fs r_text r_meme r_video responses category
      in case text' content of
           None \<Rightarrow> content\<lparr>text' := Some (get_default_text category)\<rparr>
         | Some t \<Rightarrow>
             if t = [] then content\<lparr>text' := Some (get_default_text category)\<rparr>
             else content)"

section \<open>storage.py\<close>

text \<open>
  Times are integers.  The database clock \<open>CURRENT_TIMESTAMP\<close> is UTC in whole
  seconds (the text \<open>YYYY-MM-DD HH:MM:SS\<close>, here the seconds since the epoch it
  denotes); \<open>datetime.now()\<close> is the local wall-clock time of the process, without
  a zone, in microseconds; a \<open>timedelta\<close> is a number of microseconds.  A clock
  reading gives the UTC time in microseconds and the offset of the local zone from
  UTC in seconds; clock readings and stored timestamps denote dates that
  \<open>datetime\<close> can hold.  The cooldown is an \<open>int\<close> of seconds, as the default
  604800 and CHECKIN\_COOLDOWN\_SECONDS are.
\<close>

record clock =
  utc_micros :: int
  utc_offset :: int

definition CURRENT_TIMESTAMP :: "clock \<Rightarrow> int" where
  "CURRENT_TIMESTAMP k = utc_micros k div 1000000"

definition datetime_now :: "clock \<Rightarrow> int" where
  "datetime_now k = utc_micros k + utc_offset k * 1000000"

definition fromisoformat :: "int \<Rightarrow> int" where
  "fromisoformat stamp = stamp * 1000000"

record user_row =
  username :: "string option"
  first_seen_at :: int
  last_checkin_at :: "int option"
  timezone :: string

record checkin =
  checkin_id :: nat
  user_id :: int
  created_at :: int
  input_type :: string
  mood_raw :: "string option"
  category :: string
  response_text_id :: "string option"
  meme_file :: "string option"
  video_url :: "string option"

record database =
  users :: "(int \<times> user_row) list"
  checkins :: "checkin list"

definition init_db :: database where
  "init_db = \<lparr>users = [], checkins = []\<rparr>"

text \<open>\<open>INSERT OR IGNORE\<close>: a user already known is left as it is.\<close>

definition register_user :: "database \<Rightarrow> clock \<Rightarrow> int \<Rightarrow> string option \<Rightarrow> database" where
  "register_user db k uid name =
     (case map_of (users db) uid of
        Some row \<Rightarrow> db
      | None \<Rightarrow>
          db\<lparr>users := users db @
                [(uid, \<lparr>username = name, first_seen_at = CURRENT_TIMESTAMP k,
                        last_checkin_at = None, timezone = ''Asia/Qyzylorda''\<rparr>)]\<rparr>)"

text \<open>
  \<open>timedelta.total_seconds()\<close> is the true division of the microseconds by
  \<open>10^6\<close>: the double nearest to the quotient, ties to the even significand.  A
  double is kept as its significand and exponent, \<open>Float m e\<close> standing for
  \<open>m * 2^e\<close>; within the range of \<open>datetime\<close> the quotient neither overflows
  nor is subnormal.  The comparison of a double with an \<open>int\<close> is exact.
\<close>

datatype pyfloat = Float int int

function bit_length :: "int \<Rightarrow> int" where
  "bit_length n = (if n \<le> 0 then 0 else 1 + bit_length (n div 2))"
  by pat_completeness auto
termination
  by (relation "measure nat") auto

text \<open>The integer part of the binary logarithm of \<open>n / d\<close>, for positive \<open>n\<close>
  and \<open>d\<close>.\<close>

definition floor_log2_quot :: "int \<Rightarrow> int \<Rightarrow> int" where
  "floor_log2_quot n d =
     (let k = bit_length n - bit_length d
      in if k \<ge> 0 then (if n \<ge> d * 2 ^ nat k then k else k - 1)
         else (if n * 2 ^ nat (- k) \<ge> d then k else k - 1))"

text \<open>The double nearest to \<open>n / d\<close>, for positive \<open>n\<close> and \<open>d\<close>.\<close>

definition round_quot :: "int \<Rightarrow> int \<Rightarrow> pyfloat" where
  "round_quot n d =
     (let e = floor_log2_quot n d - 52;
          N = (if e \<ge> 0 then n else n * 2 ^ nat (- e));
          D = (if e \<ge> 0 then d * 2 ^ nat e else d);
          q = N div D;
          r = N mod D;
          m = (if 2 * r > D \<or> (2 * r = D \<and> odd q) then q + 1 else q)
      in Float m e)"

definition int_truediv :: "int \<Rightarrow> int \<Rightarrow> pyfloat" where
  "int_truediv n d =
     (if n = 0 then Float 0 0
      else if n > 0 then round_quot n d
      else (case round_quot (- n) d of Float m e \<Rightarrow> Float (- m) e))"

definition total_seconds :: "int \<Rightarrow> pyfloat" where
  "total_seconds td = int_truediv td 1000000"

fun float_ge_int :: "pyfloat \<Rightarrow> int \<Rightarrow> bool" where
  "float_ge_int (Float m e) c =
     (if e \<ge> 0 then m * 2 ^ nat e \<ge> c else m \<ge> c * 2 ^ nat (- e))"

text \<open>A \<open>timedelta\<close> holds at most 999999999 days either way; building one beyond
  that raises OverflowError.\<close>

definition timedelta_ok :: "int \<Rightarrow> bool" where
  "timedelta_ok td =
     (- 999999999 \<le> td div 86400000000 \<and> td div 86400000000 \<le> 999999999)"

text \<open>An SQLite INTEGER holds 64 bits; binding a larger \<open>int\<close> as a statement
  parameter raises OverflowError.\<close>

definition sqlite_int_ok :: "int \<Rightarrow> bool" where
  "sqlite_int_ok n = (- (2 ^ 63) \<le> n \<and> n < 2 ^ 63)"

definition get_last_checkin :: "database \<Rightarrow> int \<Rightarrow> exn + int option" where
  "get_last_checkin db uid =
     (if \<not> sqlite_int_ok uid then Inl OverflowError
      else (case map_of (users db) uid of
              None \<Rightarrow> Inr None
            | Some row \<Rightarrow>
                (case last_checkin_at row of
                   None \<Rightarrow> Inr None
                 | Some stamp \<Rightarrow> Inr (Some (fromisoformat stamp)))))"

definition can_checkin ::
  "database \<Rightarrow> clock \<Rightarrow> int \<Rightarrow> int \<Rightarrow> exn + (bool \<times> int option)" where
  "can_checkin db k uid cooldown_seconds =
     (case get_last_checkin db uid of
        Inl e \<Rightarrow> Inl e
      | Inr None \<Rightarrow> Inr (True, None)
      | Inr (Some last_checkin) \<Rightarrow>
          (let time_elapsed = datetime_now k - last_checkin
           in if float_ge_int (total_seconds time_elapsed) cooldown_seconds
              then Inr (True, None)
              else if \<not> timedelta_ok (cooldown_seconds * 1000000) then Inl OverflowError
              else (let time_remaining = cooldown_seconds * 1000000 - time_elapsed
                    in if \<not> timedelta_ok time_remaining then Inl OverflowError
                       else Inr (False, Some time_remaining))))"

text \<open>
  The two statements of \<open>log_checkin\<close> read the database clock one after the
  other: \<open>k1\<close> at the \<open>INSERT\<close>, \<open>k2\<close> at the \<open>UPDATE\<close>.  The \<open>UPDATE\<close> changes
  the rows of the user, if there are any.
\<close>

definition log_checkin ::
  "bool \<Rightarrow> database \<Rightarrow> clock \<Rightarrow> clock \<Rightarrow> int \<Rightarrow> string \<Rightarrow> string \<Rightarrow> string option \<Rightarrow>
   string option \<Rightarrow> string option \<Rightarrow> string option \<Rightarrow> database" where
  "log_checkin LOG_RAW_TEXT db k1 k2 uid cat itype raw rid mfile vurl =
     (let stored_raw = (if LOG_RAW_TEXT then raw else None);
          row = \<lparr>checkin_id = Suc (length (checkins db)), user_id = uid,
                 created_at = CURRENT_TIMESTAMP k1, input_type = itype,
                 mood_raw = stored_raw, category = cat, response_text_id = rid,
                 meme_file = mfile, video_url = vurl\<rparr>
      in \<lparr>users = map (\<lambda>(u, r). if u = uid
                               then (u, r\<lparr>last_checkin_at := Some (CURRENT_TIMESTAMP k2)\<rparr>)
                               else (u, r)) (users db),
          checkins = checkins db @ [row]\<rparr>)"

text \<open>The rows of \<open>users\<close> come in the order of the integer primary key.\<close>

definition get_all_active_users :: "database \<Rightarrow> int list" where
  "get_all_active_users db = sort (map fst (users db))"

record stats =
  total_users :: nat
  week_checkins :: nat
  category_counts :: "(string \<times> nat) list"

text \<open>\<open>datetime('now', '-7 days')\<close> at a clock reading.\<close>

definition week_ago :: "clock \<Rightarrow> int" where
  "week_ago k = CURRENT_TIMESTAMP k - 7 * 86400"

text \<open>\<open>SELECT category, COUNT(*) ... GROUP BY category\<close> as a dictionary.\<close>

definition group_count :: "checkin list \<Rightarrow> (string \<times> nat) list" where
  "group_count rows =
     map (\<lambda>c. (c, length (filter (\<lambda>r. category r = c) rows))) (remdups (map category rows))"

text \<open>The two window queries of \<open>get_stats\<close> each read the database clock:
  \<open>k1\<close> for the count, \<open>k2\<close> for the breakdown.\<close>

definition get_stats :: "database \<Rightarrow> clock \<Rightarrow> clock \<Rightarrow> stats" where
  "get_stats db k1 k2 =
     \<lparr>total_users = length (users db),
      week_checkins = length (filter (\<lambda>r. created_at r \<ge> week_ago k1) (checkins db)),
      category_counts = group_count (filter (\<lambda>r. created_at r \<ge> week_ago k2) (checkins db))\<rparr>"

section \<open>Sample data\<close>

definition demo_store :: media_store where
  "demo_store = \<lparr>memes_path = (\<lambda>f. ''media/memes/'' @ f), path_exists = (\<lambda>p. True)\<rparr>"

definition demo_catalog :: response_catalog where
  "demo_catalog =
     [(ANGRY_FRUSTRATED, \<lparr>texts = Some [''Breathe.''], memes = Some [''a.jpg''],
                          videos = Some [''https://v'']\<rparr>),
      (POSITIVE, \<lparr>texts = Some [''Nice.''], memes = Some [''a.jpg''], videos = None\<rparr>),
      (SAD_LOW, \<lparr>texts = Some [], memes = None, videos = Some [''https://v'']\<rparr>)]"

text \<open>Processes in the zones UTC-05:00, UTC+09:00 and UTC, at 2023-11-14 22:13:20 UTC.\<close>

definition clock_utc_minus5 :: clock where
  "clock_utc_minus5 = \<lparr>utc_micros = 1700000000000000, utc_offset = - 18000\<rparr>"

definition clock_utc_plus9 :: clock where
  "clock_utc_plus9 = \<lparr>utc_micros = 1700000000000000, utc_offset = 32400\<rparr>"

definition clock_utc :: clock where
  "clock_utc = \<lparr>utc_micros = 1700000000000000, utc_offset = 0\<rparr>"

definition clock_utc_later :: clock where
  "clock_utc_later = \<lparr>utc_micros = 1700000001000000, utc_offset = 0\<rparr>"

definition one_user_db :: database where
  "one_user_db = register_user init_db clock_utc 222222222 None"

text \<open>A database holding one check-in made exactly seven days before \<open>clock_utc\<close>.\<close>

definition week_old_db :: database where
  "week_old_db =
     \<lparr>users = [],
      checkins = [\<lparr>checkin_id = 1, user_id = 222222222, created_at = 1699395200,
                    input_type = ''button'', mood_raw = None, category = POSITIVE,
                    response_text_id = None, meme_file = None, video_url = None\<rparr>]\<rparr>"

section \<open>Properties of the classifier\<close>

lemma rev_priority: "rev priority = spec_priority_order"
  by (simp add: priority_def spec_priority_order_def)

lemma set_spec_priority_order: "set spec_priority_order = set MOOD_CATEGORIES"
  by (auto simp add: spec_priority_order_def MOOD_CATEGORIES_def)

lemma find_first:
  "find P xs = Some c \<Longrightarrow>
     P c \<and> c \<in> set xs \<and> (\<forall>d\<in>set xs. P d \<longrightarrow> index_of xs c \<le> index_of xs d)"
proof (induction xs)
  case Nil
  then show ?case by simp
next
  case (Cons x xs)
  then show ?case by (auto split: if_splits)
qed

lemma find_exists: "x \<in> set xs \<Longrightarrow> P x \<Longrightarrow> \<exists>c. find P xs = Some c"
  by (induction xs) auto

lemma set_matched_categories:
  "set (matched_categories R keywords t) =
     {c. \<exists>kws. (c, kws) \<in> set keywords \<and> (\<exists>k\<in>set kws. text_matches R t k)}"
  by (force simp add: matched_categories_def text_matches_def Let_def list_ex_iff)

lemma classify_text_mood_ranked:
  assumes "m \<in> set (matched_categories R keywords t)" and "m \<in> set spec_priority_order"
  shows "\<exists>c. classify_text_mood R keywords t = Inr c \<and>
           c \<in> set (matched_categories R keywords t) \<and> c \<in> set spec_priority_order \<and>
           (\<forall>d\<in>set (matched_categories R keywords t). d \<in> set spec_priority_order \<longrightarrow>
              index_of spec_priority_order c \<le> index_of spec_priority_order d)"
proof -
  let ?M = "matched_categories R keywords t"
  from assms obtain c where c: "find (\<lambda>x. x \<in> set ?M) spec_priority_order = Some c"
    using find_exists [of m spec_priority_order "\<lambda>x. x \<in> set ?M"] by blast
  from assms(1) have ne: "?M \<noteq> []" by auto
  have "classify_text_mood R keywords t = Inr c"
    using c ne by (simp add: classify_text_mood_def Let_def rev_priority)
  with find_first [OF c] show ?thesis by blast
qed

lemma classify_text_mood_unranked:
  assumes "matched_categories R keywords t \<noteq> []"
    and "\<forall>m\<in>set (matched_categories R keywords t). m \<notin> set spec_priority_order"
  shows "classify_text_mood R keywords t = Inr (set_first R (matched_categories R keywords t))"
proof -
  let ?M = "matched_categories R keywords t"
  have "find (\<lambda>x. x \<in> set ?M) spec_priority_order = None"
    using assms(2) by (auto simp add: find_None_iff)
  then show ?thesis
    using assms(1) by (simp add: classify_text_mood_def Let_def rev_priority split: list.splits)
qed

lemma classify_text_mood_unmatched:
  "matched_categories R keywords t = [] \<Longrightarrow> classify_text_mood R keywords t = Inr NEUTRAL_TIRED"
  by (simp add: classify_text_mood_def)

lemma set_first_ok_ascii: "set_first_ok ascii_runtime"
  by (simp add: set_first_ok_def ascii_runtime_def)

lemma matched_happy_kill:
  "matched_categories ascii_runtime
     [(POSITIVE, [ascii ''happy'']), (HEAVY_DEEP, [ascii ''kill myself''])]
     (ascii ''Happy, kill myself'') = [POSITIVE, HEAVY_DEEP]"
  by code_simp

text \<open>
  C1.  When the text matches keywords of two or more of the six categories,
  \<open>classify_text_mood\<close> returns a matched category, and no matched category
  stands before it in the order HEAVY\_DEEP, SAD\_LOW, ANGRY\_FRUSTRATED,
  ANXIOUS\_STRESSED, NEUTRAL\_TIRED, POSITIVE.
\<close>

theorem priority_tie_break:
  assumes "c1 \<in> set (matched_categories R keywords t)"
    and "c2 \<in> set (matched_categories R keywords t)"
    and "c1 \<noteq> c2"
    and "c1 \<in> set spec_priority_order" and "c2 \<in> set spec_priority_order"
  shows "\<exists>c. classify_text_mood R keywords t = Inr c \<and>
           c \<in> set (matched_categories R keywords t) \<and> c \<in> set spec_priority_order \<and>
           (\<forall>d\<in>set (matched_categories R keywords t). d \<in> set spec_priority_order \<longrightarrow>
              index_of spec_priority_order c \<le> index_of spec_priority_order d)"
  using assms(1,4) by (rule classify_text_mood_ranked)

theorem priority_tie_break_witness:
  "\<exists>c. classify_text_mood ascii_runtime
          [(POSITIVE, [ascii ''happy'']), (HEAVY_DEEP, [ascii ''kill myself''])]
          (ascii ''Happy, kill myself'') = Inr c \<and>
       c \<in> {POSITIVE, HEAVY_DEEP} \<and> c \<in> set spec_priority_order \<and>
       (\<forall>d\<in>{POSITIVE, HEAVY_DEEP}. d \<in> set spec_priority_order \<longrightarrow>
          index_of spec_priority_order c \<le> index_of spec_priority_order d)"
  using priority_tie_break [of POSITIVE ascii_runtime
      "[(POSITIVE, [ascii ''happy'']), (HEAVY_DEEP, [ascii ''kill myself''])]"
      "ascii ''Happy, kill myself''" HEAVY_DEEP]
  by (simp add: matched_happy_kill spec_priority_order_def)

text \<open>
  C2, as the code has it.  \<open>classify_text_mood\<close> never raises.  It returns one of
  the six categories when nothing matched or when at least one matched name is one
  of the six (matched names outside the six are then passed over); when every
  matched name is outside the six it returns one of these matched names.
\<close>

theorem classify_text_mood_closed_or_matched:
  assumes "set_first_ok R"
  shows "\<exists>c. classify_text_mood R keywords t = Inr c \<and>
           (if matched_categories R keywords t = [] \<or>
               (\<exists>m\<in>set (matched_categories R keywords t). m \<in> set MOOD_CATEGORIES)
            then c \<in> set MOOD_CATEGORIES
            else c \<in> set (matched_categories R keywords t) \<and> c \<notin> set MOOD_CATEGORIES)"
proof (cases "matched_categories R keywords t = []")
  case True
  then show ?thesis
    by (simp add: classify_text_mood_unmatched MOOD_CATEGORIES_def)
next
  case ne: False
  show ?thesis
  proof (cases "\<exists>m\<in>set (matched_categories R keywords t). m \<in> set MOOD_CATEGORIES")
    case True
    then obtain m where "m \<in> set (matched_categories R keywords t)"
      and "m \<in> set spec_priority_order"
      by (auto simp add: set_spec_priority_order)
    from classify_text_mood_ranked [OF this] True show ?thesis
      by (auto simp add: set_spec_priority_order)
  next
    case False
    then have none: "\<forall>m\<in>set (matched_categories R keywords t). m \<notin> set spec_priority_order"
      by (simp add: set_spec_priority_order)
    have "set_first R (matched_categories R keywords t) \<in> set (matched_categories R keywords t)"
      using assms ne by (simp add: set_first_ok_def)
    with classify_text_mood_unranked [OF ne none] False ne show ?thesis
      by auto
  qed
qed

theorem classify_text_mood_closed_or_matched_witness:
  "set_first_ok ascii_runtime \<and>
   (\<exists>c. classify_text_mood ascii_runtime
           [(POSITIVE, [ascii ''happy'']), (HEAVY_DEEP, [ascii ''kill myself''])]
           (ascii ''Happy, kill myself'') = Inr c \<and> c \<in> set MOOD_CATEGORIES)"
  using classify_text_mood_closed_or_matched [OF set_first_ok_ascii,
      of "[(POSITIVE, [ascii ''happy'']), (HEAVY_DEEP, [ascii ''kill myself''])]"
         "ascii ''Happy, kill myself''"]
  by (simp add: matched_happy_kill set_first_ok_ascii MOOD_CATEGORIES_def)

text \<open>
  C2 as stated fails: with the keyword table \<open>{"FOO": ["bar"]}\<close> the text
  \<open>bar\<close> is classified as \<open>FOO\<close>, which is none of the six categories.  The set
  of matched names has this one element, so its iteration order plays no part.
\<close>

theorem unknown_category_returned:
  "classify_text_mood ascii_runtime [(''FOO'', [ascii ''bar''])] (ascii ''bar'') = Inr ''FOO'' \<and>
   ''FOO'' \<notin> set MOOD_CATEGORIES"
  by code_simp

text \<open>
  C6.  \<open>classify_text_mood\<close> never raises; when no keyword of any category matches
  the text it returns NEUTRAL\_TIRED, and so it does for every text when the
  keyword file is missing and the table is empty.
\<close>

theorem no_match_default:
  "(\<exists>c. classify_text_mood R keywords t = Inr c) \<and>
   ((\<forall>(c, kws)\<in>set keywords. \<forall>k\<in>set kws. \<not> text_matches R t k) \<longrightarrow>
      classify_text_mood R keywords t = Inr NEUTRAL_TIRED) \<and>
   classify_text_mood R (load_keywords None) t = Inr NEUTRAL_TIRED"
proof (intro conjI impI)
  show "\<exists>c. classify_text_mood R keywords t = Inr c"
    by (simp add: classify_text_mood_def Let_def split: option.splits list.splits)
next
  assume "\<forall>(c, kws)\<in>set keywords. \<forall>k\<in>set kws. \<not> text_matches R t k"
  then have "set (matched_categories R keywords t) = {}"
    unfolding set_matched_categories by blast
  then show "classify_text_mood R keywords t = Inr NEUTRAL_TIRED"
    by (simp add: classify_text_mood_unmatched)
next
  show "classify_text_mood R (load_keywords None) t = Inr NEUTRAL_TIRED"
    by (simp add: classify_text_mood_def load_keywords_def matched_categories_def)
qed

lemma no_match_sad_ok: "\<not> text_matches ascii_runtime (ascii ''ok'') (ascii ''sad'')"
  by code_simp

theorem no_match_default_witness:
  "\<not> text_matches ascii_runtime (ascii ''ok'') (ascii ''sad'') \<and>
   classify_text_mood ascii_runtime [(SAD_LOW, [ascii ''sad''])] (ascii ''ok'') = Inr NEUTRAL_TIRED"
  using no_match_default [of ascii_runtime "[(SAD_LOW, [ascii ''sad''])]" "ascii ''ok''"]
  by (simp add: no_match_sad_ok)

text \<open>
  C7.  With \<open>is_button\<close> set, \<open>classify\<close> returns for every label of MOOD\_BUTTONS
  the category it is mapped to, for every other label NEUTRAL\_TIRED, and it never
  raises.
\<close>

theorem classify_button:
  "(\<forall>(label, c)\<in>set MOOD_BUTTONS. classify R keywords label True = Inr c) \<and>
   (l \<notin> fst ` set MOOD_BUTTONS \<longrightarrow> classify R keywords l True = Inr NEUTRAL_TIRED) \<and>
   (\<exists>c. classify R keywords l True = Inr c)"
proof (intro conjI impI)
  show "\<forall>(label, c)\<in>set MOOD_BUTTONS. classify R keywords label True = Inr c"
    by (simp add: MOOD_BUTTONS_def classify_def classify_button_mood_def ascii_def)
next
  assume "l \<notin> fst ` set MOOD_BUTTONS"
  then have "map_of MOOD_BUTTONS l = None"
    by (simp add: map_of_eq_None_iff)
  then show "classify R keywords l True = Inr NEUTRAL_TIRED"
    by (simp add: classify_def classify_button_mood_def)
next
  show "\<exists>c. classify R keywords l True = Inr c"
    by (simp add: classify_def split: option.splits)
qed

theorem classify_button_witness:
  "(128532 # ascii '' Sad'', SAD_LOW) \<in> set MOOD_BUTTONS \<and>
   classify ascii_runtime [] (128532 # ascii '' Sad'') True = Inr SAD_LOW \<and>
   ascii ''Fine'' \<notin> fst ` set MOOD_BUTTONS \<and>
   classify ascii_runtime [] (ascii ''Fine'') True = Inr NEUTRAL_TIRED"
proof -
  have a: "(128532 # ascii '' Sad'', SAD_LOW) \<in> set MOOD_BUTTONS"
    by (simp add: MOOD_BUTTONS_def)
  have b: "ascii ''Fine'' \<notin> fst ` set MOOD_BUTTONS"
    by (simp add: MOOD_BUTTONS_def ascii_def)
  from classify_button [of ascii_runtime "[]" "ascii ''Fine''"] a b show ?thesis
    by fastforce
qed

subsection \<open>Case and punctuation\<close>

lemma str_split_space_Cons: "sp c \<Longrightarrow> str_split sp (c # x) = str_split sp x"
  by (cases x) auto

lemma str_split_nonempty: "\<not> sp c \<Longrightarrow> str_split sp (c # x) \<noteq> []"
  by (induction sp "c # x" arbitrary: c x rule: str_split.induct) (auto split: list.splits)

lemma str_split_word_Cons:
  assumes c: "\<not> sp c"
  shows "str_split sp (c # x) =
       (if starts_word sp x then (c # hd (str_split sp x)) # tl (str_split sp x)
        else [c] # str_split sp x)"
proof (cases x)
  case Nil
  with c show ?thesis by (simp add: starts_word_def)
next
  case (Cons d x')
  show ?thesis
  proof (cases "sp d")
    case True
    with c Cons show ?thesis by (simp add: starts_word_def)
  next
    case False
    with str_split_nonempty [of sp d x'] obtain v vs where "str_split sp (d # x') = v # vs"
      by (cases "str_split sp (d # x')") auto
    with c False Cons show ?thesis by (simp add: starts_word_def)
  qed
qed

lemma str_split_pad: "sp 32 \<Longrightarrow> str_split sp (pad p x) = str_split sp x"
  by (simp add: pad_def str_split_space_Cons)

lemma str_split_pad_space: "sp 32 \<Longrightarrow> sp c \<Longrightarrow> str_split sp (pad p (c # x)) = str_split sp x"
  by (simp add: pad_def str_split_space_Cons)

lemma starts_word_pad_space: "sp 32 \<Longrightarrow> sp c \<Longrightarrow> \<not> starts_word sp (pad p (c # x))"
  by (simp add: pad_def starts_word_def)

lemma starts_word_pad_word: "sp 32 \<Longrightarrow> \<not> sp c \<Longrightarrow> starts_word sp (pad p (c # x)) = (\<not> p)"
  by (simp add: pad_def starts_word_def)

lemma replace_punct_punct: "is_punct R c \<Longrightarrow> replace_punct R c = 32"
  by (simp add: replace_punct_def is_punct_def)

lemma replace_punct_other: "\<not> is_punct R c \<Longrightarrow> replace_punct R c = c"
  by (auto simp add: replace_punct_def is_punct_def)

lemma same_words_skip_left:
  assumes "is_space R 32" and "is_punct R a"
    and "same_words (is_space R) w (pad True (map (replace_punct R) s)) y"
  shows "same_words (is_space R) w (pad p (map (replace_punct R) (a # s))) y"
  using assms
  by (simp add: same_words_def replace_punct_punct pad_def str_split_space_Cons starts_word_def)

lemma same_words_skip_right:
  assumes "is_space R 32" and "is_punct R b"
    and "same_words (is_space R) w x (pad True (map (replace_punct R) t))"
  shows "same_words (is_space R) w x (pad q (map (replace_punct R) (b # t)))"
  using assms
  by (simp add: same_words_def replace_punct_punct pad_def str_split_space_Cons starts_word_def)

lemma punct_variant_same_words:
  "punct_variant R w p q s t \<Longrightarrow> is_space R 32 \<Longrightarrow>
     same_words (is_space R) w (pad p (map (replace_punct R) s)) (pad q (map (replace_punct R) t))"
proof (induction R w p q s t rule: punct_variant.induct)
  case (1 R w p q)
  then show ?case
    by (simp add: same_words_def pad_def starts_word_def)
next
  case (2 R w p q a s)
  then show ?case
    using same_words_skip_left [of R a w s "pad q (map (replace_punct R) [])" p] by simp
next
  case (3 R w p q b t)
  then show ?case
    using same_words_skip_right [of R b w "pad p (map (replace_punct R) [])" t q] by simp
next
  case (4 R w p q a s b t)
  show ?case
  proof (cases "is_punct R a")
    case True
    with 4 show ?thesis
      using same_words_skip_left [of R a w s "pad q (map (replace_punct R) (b # t))" p]
      by simp
  next
    case na: False
    show ?thesis
    proof (cases "is_punct R b")
      case True
      with na 4 show ?thesis
        using same_words_skip_right [of R b w "pad p (map (replace_punct R) (a # s))" t q]
        by simp
    next
      case nb: False
      from "4.prems" na nb have ab: "a = b"
        and pq: "w \<and> \<not> is_space R a \<longrightarrow> p = q"
        and rest: "punct_variant R (\<not> is_space R a) False False s t"
        by (auto split: if_splits)
      from "4.IH"(3) [OF na nb] ab rest "4.prems"(2)
      have ih: "same_words (is_space R) (\<not> is_space R a)
                  (map (replace_punct R) s) (map (replace_punct R) t)"
        by (simp add: pad_def)
      show ?thesis
      proof (cases "is_space R a")
        case True
        with ih "4.prems"(2) na nb ab show ?thesis
          by (simp add: same_words_def replace_punct_other str_split_pad_space
              starts_word_pad_space)
      next
        case False
        with ih have "same_words (is_space R) True
                        (map (replace_punct R) s) (map (replace_punct R) t)"
          by simp
        then have e: "str_split (is_space R) (a # map (replace_punct R) s) =
                      str_split (is_space R) (a # map (replace_punct R) t)"
          using False by (simp add: same_words_def str_split_word_Cons)
        with False pq na nb ab "4.prems"(2) show ?thesis
          by (simp add: same_words_def replace_punct_other str_split_pad starts_word_pad_word)
      qed
    qed
  qed
qed

text \<open>Texts related by \<open>punct_variant\<close> are the same once punctuation is deleted.\<close>

lemma punct_variant_filter:
  "punct_variant R w p q s t \<Longrightarrow>
     filter (\<lambda>c. \<not> is_punct R c) s = filter (\<lambda>c. \<not> is_punct R c) t"
  by (induction R w p q s t rule: punct_variant.induct) (auto split: if_splits)

lemma normalize_text_replace_punct:
  "normalize_text R t =
     str_join (str_split (is_space R) (map (replace_punct R) (str_lower R t)))"
  by (simp add: normalize_text_def replace_punct_def [abs_def])

lemma classify_text_mood_normalized:
  "normalize_text R t1 = normalize_text R t2 \<Longrightarrow>
     classify_text_mood R keywords t1 = classify_text_mood R keywords t2"
  by (simp add: classify_text_mood_def matched_categories_def)

text \<open>
  C5, as the code has it.  Take any runtime in which the space character is
  whitespace, and two texts that are the same once lowercased and with the
  punctuation deleted, such that wherever two word characters follow each other
  directly, punctuation stands between them in both texts or in neither.  Then
  \<open>classify_text_mood\<close> returns the same category for both, whatever the keyword
  table.
\<close>

theorem case_punct_variant_same_category:
  assumes "is_space R 32" and "case_punct_variant R t1 t2"
  shows "classify_text_mood R keywords t1 = classify_text_mood R keywords t2"
proof -
  have "same_words (is_space R) False
          (pad False (map (replace_punct R) (str_lower R t1)))
          (pad False (map (replace_punct R) (str_lower R t2)))"
    using assms by (simp add: case_punct_variant_def punct_variant_same_words)
  then have "normalize_text R t1 = normalize_text R t2"
    by (simp add: normalize_text_replace_punct same_words_def pad_def)
  then show ?thesis by (rule classify_text_mood_normalized)
qed

lemma space_ascii_runtime: "is_space ascii_runtime 32"
  by (simp add: ascii_runtime_def ascii_space_def)

lemma variant_sad: "case_punct_variant ascii_runtime (ascii ''I'm sad.'') (ascii ''I'M SAD!!!'')"
  by code_simp

lemma variant_sad_boundary: "case_punct_variant ascii_runtime (ascii ''I am sad'') (ascii ''I am, sad.'')"
  by code_simp

lemma classify_sad:
  "classify_text_mood ascii_runtime [(SAD_LOW, [ascii ''sad''])] (ascii ''I'm sad.'') = Inr SAD_LOW"
  by code_simp

lemma classify_sad_boundary:
  "classify_text_mood ascii_runtime [(SAD_LOW, [ascii ''sad''])] (ascii ''I am sad'') = Inr SAD_LOW"
  by code_simp

theorem case_punct_variant_same_category_witness:
  "is_space ascii_runtime 32 \<and>
   case_punct_variant ascii_runtime (ascii ''I'm sad.'') (ascii ''I'M SAD!!!'') \<and>
   classify_text_mood ascii_runtime [(SAD_LOW, [ascii ''sad''])] (ascii ''I'M SAD!!!'') = Inr SAD_LOW \<and>
   case_punct_variant ascii_runtime (ascii ''I am sad'') (ascii ''I am, sad.'') \<and>
   classify_text_mood ascii_runtime [(SAD_LOW, [ascii ''sad''])] (ascii ''I am, sad.'') = Inr SAD_LOW"
  using case_punct_variant_same_category [OF space_ascii_runtime variant_sad,
      of "[(SAD_LOW, [ascii ''sad''])]"]
    case_punct_variant_same_category [OF space_ascii_runtime variant_sad_boundary,
      of "[(SAD_LOW, [ascii ''sad''])]"]
  by (simp add: variant_sad variant_sad_boundary classify_sad classify_sad_boundary
      space_ascii_runtime)

text \<open>
  C5 as stated fails: \<open>sad!\<close> and \<open>s!ad\<close> differ only in where the
  punctuation character stands, yet with the keyword \<open>sad\<close> the first is
  SAD\_LOW and the second, normalized to the two words \<open>s ad\<close>, matches nothing.
\<close>

theorem punctuation_inside_word_changes_category:
  "differ_only_in_case_or_punctuation (ascii ''sad!'') (ascii ''s!ad'') \<and>
   classify_text_mood ascii_runtime [(SAD_LOW, [ascii ''sad''])] (ascii ''sad!'') = Inr SAD_LOW \<and>
   classify_text_mood ascii_runtime [(SAD_LOW, [ascii ''sad''])] (ascii ''s!ad'')
     = Inr NEUTRAL_TIRED"
  by code_simp

text \<open>This pair is outside the narrower relation: the punctuation stands between
  two word characters in one text only.\<close>

lemma sad_pair_not_variant:
  "\<not> case_punct_variant ascii_runtime (ascii ''sad!'') (ascii ''s!ad'')"
  by code_simp

section \<open>Properties of the response selection\<close>

lemma get_content_media:
  "(meme (get_content_for_category fs r1 r2 r3 responses c) \<noteq> None \<longrightarrow>
      c \<in> {POSITIVE, NEUTRAL_TIRED}) \<and>
   (video (get_content_for_category fs r1 r2 r3 responses c) \<noteq> None \<longrightarrow>
      c \<in> {SAD_LOW, ANXIOUS_STRESSED})"
  by (simp add: get_content_for_category_def Let_def split: option.splits)

lemma get_response_media:
  "meme (get_response_for_mood fs r1 r2 r3 responses c) =
     meme (get_content_for_category fs r1 r2 r3 responses c) \<and>
   video (get_response_for_mood fs r1 r2 r3 responses c) =
     video (get_content_for_category fs r1 r2 r3 responses c) \<and>
   text_id (get_response_for_mood fs r1 r2 r3 responses c) =
     text_id (get_content_for_category fs r1 r2 r3 responses c)"
  by (simp add: get_response_for_mood_def Let_def split: option.splits)

text \<open>
  C8.  The response for ANGRY\_FRUSTRATED or HEAVY\_DEEP has neither image nor
  video, whatever the catalog, the media store and the random draws; an image is
  only returned for POSITIVE or NEUTRAL\_TIRED and a video only for SAD\_LOW or
  ANXIOUS\_STRESSED.
\<close>

theorem media_by_category:
  "(c \<in> {ANGRY_FRUSTRATED, HEAVY_DEEP} \<longrightarrow>
      meme (get_response_for_mood fs r1 r2 r3 responses c) = None \<and>
      video (get_response_for_mood fs r1 r2 r3 responses c) = None) \<and>
   (meme (get_response_for_mood fs r1 r2 r3 responses c) \<noteq> None \<longrightarrow>
      c \<in> {POSITIVE, NEUTRAL_TIRED}) \<and>
   (video (get_response_for_mood fs r1 r2 r3 responses c) \<noteq> None \<longrightarrow>
      c \<in> {SAD_LOW, ANXIOUS_STRESSED})"
  using get_content_media [of fs r1 r2 r3 responses c]
  by (auto simp add: get_response_media)

theorem media_by_category_witness:
  "ANGRY_FRUSTRATED \<in> {ANGRY_FRUSTRATED, HEAVY_DEEP} \<and>
   meme (get_response_for_mood demo_store 0 0 0 demo_catalog ANGRY_FRUSTRATED) = None \<and>
   video (get_response_for_mood demo_store 0 0 0 demo_catalog ANGRY_FRUSTRATED) = None \<and>
   meme (get_response_for_mood demo_store 0 0 0 demo_catalog POSITIVE) \<noteq> None \<and>
   POSITIVE \<in> {POSITIVE, NEUTRAL_TIRED} \<and>
   video (get_response_for_mood demo_store 0 0 0 demo_catalog SAD_LOW) \<noteq> None \<and>
   SAD_LOW \<in> {SAD_LOW, ANXIOUS_STRESSED}"
proof -
  have p: "meme (get_response_for_mood demo_store 0 0 0 demo_catalog POSITIVE) \<noteq> None"
    by (simp add: get_response_for_mood_def get_content_for_category_def demo_catalog_def
        demo_store_def random_choice_def)
  have s: "video (get_response_for_mood demo_store 0 0 0 demo_catalog SAD_LOW) \<noteq> None"
    by (simp add: get_response_for_mood_def get_content_for_category_def demo_catalog_def
        demo_store_def random_choice_def)
  from media_by_category [of ANGRY_FRUSTRATED demo_store 0 0 0 demo_catalog]
    media_by_category [of POSITIVE demo_store 0 0 0 demo_catalog]
    media_by_category [of SAD_LOW demo_store 0 0 0 demo_catalog] p s
  show ?thesis by simp
qed

lemma get_default_text_nonempty: "get_default_text c \<noteq> []"
  by (simp add: get_default_text_def defaults_def)

lemma get_default_text_defaults: "(c, s) \<in> set defaults \<Longrightarrow> get_default_text c = s"
  by (auto simp add: get_default_text_def defaults_def)

lemma get_content_text:
  "map_of responses c = Some d \<Longrightarrow>
     text' (get_content_for_category fs r1 r2 r3 responses c) =
       (case texts d of
          None \<Rightarrow> None
        | Some ts \<Rightarrow> if ts \<noteq> [] then Some (random_choice r1 ts) else None)"
  by (simp add: get_content_for_category_def Let_def split: option.splits)

lemma get_response_fallback:
  assumes "map_of responses c = Some d" and "texts d = None \<or> texts d = Some []"
  shows "text' (get_response_for_mood fs r1 r2 r3 responses c) = Some (get_default_text c)"
proof -
  have "text' (get_content_for_category fs r1 r2 r3 responses c) = None"
    using assms by (auto simp add: get_content_text)
  then show ?thesis
    by (simp add: get_response_for_mood_def Let_def)
qed

text \<open>
  C9.  \<open>get_response_for_mood\<close> always returns a non-empty text.  When the
  category is in the catalog with its text list empty or absent, the text is the
  fallback of \<open>get_default_text\<close>, which for each of the six categories is its
  string in \<open>defaults\<close>; when the category is not in the catalog the result is
  the generic fallback, without media and with text\_id \<open>default\<close>.
\<close>

theorem response_text_never_empty:
  "(\<exists>t. text' (get_response_for_mood fs r1 r2 r3 responses c) = Some t \<and> t \<noteq> []) \<and>
   (\<forall>d. map_of responses c = Some d \<and> (texts d = None \<or> texts d = Some []) \<longrightarrow>
      text' (get_response_for_mood fs r1 r2 r3 responses c) = Some (get_default_text c)) \<and>
   (\<forall>s. (c, s) \<in> set defaults \<longrightarrow> get_default_text c = s) \<and>
   (map_of responses c = None \<longrightarrow>
      get_response_for_mood fs r1 r2 r3 responses c =
        \<lparr>text' = Some ''Thanks for checking in. Take care of yourself.'',
         meme = None, video = None, text_id = Some ''default''\<rparr>)"
proof (intro conjI allI impI)
  show "\<exists>t. text' (get_response_for_mood fs r1 r2 r3 responses c) = Some t \<and> t \<noteq> []"
    by (simp add: get_response_for_mood_def Let_def get_default_text_nonempty
        split: option.splits)
next
  fix d
  assume "map_of responses c = Some d \<and> (texts d = None \<or> texts d = Some [])"
  then show "text' (get_response_for_mood fs r1 r2 r3 responses c) = Some (get_default_text c)"
    using get_response_fallback [of responses c d] by blast
next
  fix s
  assume "(c, s) \<in> set defaults"
  then show "get_default_text c = s" by (rule get_default_text_defaults)
next
  assume "map_of responses c = None"
  then show "get_response_for_mood fs r1 r2 r3 responses c =
        \<lparr>text' = Some ''Thanks for checking in. Take care of yourself.'',
         meme = None, video = None, text_id = Some ''default''\<rparr>"
    by (simp add: get_response_for_mood_def get_content_for_category_def)
qed

theorem response_text_never_empty_witness:
  "map_of demo_catalog SAD_LOW = Some \<lparr>texts = Some [], memes = None, videos = Some [''https://v'']\<rparr> \<and>
   (SAD_LOW, ''I hear you. You're not alone in this. One step at a time.'') \<in> set defaults \<and>
   text' (get_response_for_mood demo_store 0 0 0 demo_catalog SAD_LOW) =
     Some ''I hear you. You're not alone in this. One step at a time.'' \<and>
   map_of demo_catalog HEAVY_DEEP = None \<and>
   get_response_for_mood demo_store 0 0 0 demo_catalog HEAVY_DEEP =
     \<lparr>text' = Some ''Thanks for checking in. Take care of yourself.'',
      meme = None, video = None, text_id = Some ''default''\<rparr>"
proof -
  have a: "map_of demo_catalog SAD_LOW =
      Some \<lparr>texts = Some [], memes = None, videos = Some [''https://v'']\<rparr>"
    by (simp add: demo_catalog_def)
  have b: "(SAD_LOW, ''I hear you. You're not alone in this. One step at a time.'') \<in> set defaults"
    by (simp add: defaults_def)
  have c: "map_of demo_catalog HEAVY_DEEP = None"
    by (simp add: demo_catalog_def)
  from response_text_never_empty [of demo_store 0 0 0 demo_catalog SAD_LOW]
    response_text_never_empty [of demo_store 0 0 0 demo_catalog HEAVY_DEEP] a b c
  show ?thesis by fastforce
qed

section \<open>Properties of the check-in ledger\<close>

lemma map_of_update_row:
  "map_of (map (\<lambda>(u, r). if u = uid then (u, f r) else (u, r)) us) uid =
     map_option f (map_of us uid)"
  by (induction us) auto

lemma get_last_checkin_log_checkin:
  "map_of (users db) uid = Some row \<Longrightarrow> sqlite_int_ok uid \<Longrightarrow>
     get_last_checkin (log_checkin flag db k1 k2 uid c itype raw rid mfile vurl) uid =
       Inr (Some (fromisoformat (CURRENT_TIMESTAMP k2)))"
  by (simp add: get_last_checkin_def log_checkin_def Let_def map_of_update_row)

text \<open>
  What \<open>can_checkin\<close> sees after \<open>log_checkin\<close> for a registered user: the
  elapsed time is the local wall-clock time of the query minus the UTC second of
  the recording.
\<close>

lemma can_checkin_after_log_checkin:
  assumes "map_of (users db) uid = Some row" and "sqlite_int_ok uid"
  shows "can_checkin (log_checkin flag db k1 k2 uid c itype raw rid mfile vurl) k3 uid cd =
           (let time_elapsed = datetime_now k3 - CURRENT_TIMESTAMP k2 * 1000000
            in if float_ge_int (total_seconds time_elapsed) cd then Inr (True, None)
               else if \<not> timedelta_ok (cd * 1000000) then Inl OverflowError
               else if \<not> timedelta_ok (cd * 1000000 - time_elapsed) then Inl OverflowError
               else Inr (False, Some (cd * 1000000 - time_elapsed)))"
  by (simp add: can_checkin_def get_last_checkin_log_checkin [OF assms] fromisoformat_def Let_def)

lemma one_user_db_registered:
  "map_of (users one_user_db) 222222222 =
     Some \<lparr>username = None, first_seen_at = 1700000000, last_checkin_at = None,
           timezone = ''Asia/Qyzylorda''\<rparr>"
  by (simp add: one_user_db_def register_user_def init_db_def CURRENT_TIMESTAMP_def clock_utc_def)

lemma sqlite_int_ok_user: "sqlite_int_ok 222222222"
  by (simp add: sqlite_int_ok_def)

lemma total_seconds_west: "\<not> float_ge_int (total_seconds (- 18000000000)) 604800"
  by code_simp

lemma total_seconds_east: "float_ge_int (total_seconds 32400000000) 3600"
  by code_simp

lemma total_seconds_zero: "\<not> float_ge_int (total_seconds 0) 604800"
  by code_simp

text \<open>In a process whose local zone is UTC the default cooldown is reported in
  full at the instant of the recording.\<close>

lemma can_checkin_after_log_checkin_in_utc:
  "can_checkin
     (log_checkin False one_user_db clock_utc clock_utc 222222222 POSITIVE
        ''button'' None None None None)
     clock_utc 222222222 CHECKIN_COOLDOWN_SECONDS = Inr (False, Some 604800000000)"
  by (simp add: can_checkin_after_log_checkin [OF one_user_db_registered sqlite_int_ok_user]
      CHECKIN_COOLDOWN_SECONDS_def datetime_now_def CURRENT_TIMESTAMP_def clock_utc_def
      total_seconds_zero timedelta_ok_def)

text \<open>A user without a row in \<open>users\<close> may always check in, also right after a
  check-in of theirs was recorded: the \<open>UPDATE\<close> of \<open>log_checkin\<close> found no row.\<close>

lemma can_checkin_never_seen:
  "sqlite_int_ok uid \<Longrightarrow> map_of (users db) uid = None \<Longrightarrow>
     can_checkin db k uid cd = Inr (True, None)"
  by (simp add: can_checkin_def get_last_checkin_def)

lemma can_checkin_unregistered_after_log_checkin:
  "can_checkin
     (log_checkin False init_db clock_utc clock_utc 333333333 POSITIVE
        ''button'' None None None None)
     clock_utc 333333333 CHECKIN_COOLDOWN_SECONDS = Inr (True, None)"
  by (simp add: can_checkin_def get_last_checkin_def log_checkin_def init_db_def
      sqlite_int_ok_def)

text \<open>
  C3 fails on the code.  In a process whose local zone is five hours west of UTC,
  a \<open>can_checkin\<close> at the very instant of \<open>log_checkin\<close>, with the default cooldown
  of 604800 seconds, reports 622800 seconds (173 hours) remaining: more than the
  cooldown and more than 170 hours.  The recording stores the UTC time of the
  database, the query subtracts it from the local time of \<open>datetime.now()\<close>.
\<close>

theorem remaining_exceeds_cooldown_west_of_utc:
  "can_checkin
     (log_checkin False one_user_db clock_utc_minus5 clock_utc_minus5 222222222 POSITIVE
        ''button'' None None None None)
     clock_utc_minus5 222222222 CHECKIN_COOLDOWN_SECONDS = Inr (False, Some 622800000000) \<and>
   CHECKIN_COOLDOWN_SECONDS * 1000000 < 622800000000 \<and>
   170 * 3600 * 1000000 < (622800000000 :: int)"
  by (simp add: can_checkin_after_log_checkin [OF one_user_db_registered sqlite_int_ok_user]
      CHECKIN_COOLDOWN_SECONDS_def datetime_now_def CURRENT_TIMESTAMP_def clock_utc_minus5_def
      total_seconds_west timedelta_ok_def)

text \<open>
  C4 fails on the code, by the same mix of UTC and local time as C3.  In a process
  whose local zone is nine hours east of UTC, with a cooldown of 3600 seconds, a
  \<open>can_checkin\<close> at the very instant of the recorded check-in returns
  \<open>(True, None)\<close>, although no time has passed since the last check-in: what the
  code takes for the elapsed time is nine hours.
\<close>

theorem cooldown_skipped_east_of_utc:
  "can_checkin
     (log_checkin False one_user_db clock_utc_plus9 clock_utc_plus9 222222222 POSITIVE
        ''button'' None None None None)
     clock_utc_plus9 222222222 3600 = Inr (True, None) \<and>
   utc_micros clock_utc_plus9 - utc_micros clock_utc_plus9 < 3600 * 1000000"
  by (simp add: can_checkin_after_log_checkin [OF one_user_db_registered sqlite_int_ok_user]
      datetime_now_def CURRENT_TIMESTAMP_def clock_utc_plus9_def total_seconds_east)

section \<open>Properties of the statistics\<close>

lemma sum_list_indicator:
  "distinct cs \<Longrightarrow> (\<Sum>c\<leftarrow>cs. if a = c then 1 else 0) = (if a \<in> set cs then 1 else (0::nat))"
  by (induction cs) auto

lemma sum_list_group:
  "distinct cs \<Longrightarrow> f ` set rows \<subseteq> set cs \<Longrightarrow>
     (\<Sum>c\<leftarrow>cs. length (filter (\<lambda>r. f r = c) rows)) = length rows"
proof (induction rows)
  case Nil
  then show ?case by simp
next
  case (Cons x rows)
  have "(\<Sum>c\<leftarrow>cs. length (filter (\<lambda>r. f r = c) (x # rows))) =
          (\<Sum>c\<leftarrow>cs. (if f x = c then 1 else 0) + length (filter (\<lambda>r. f r = c) rows))"
    by (rule arg_cong [where f = sum_list]) simp
  also have "\<dots> = (\<Sum>c\<leftarrow>cs. if f x = c then 1 else 0) +
                    (\<Sum>c\<leftarrow>cs. length (filter (\<lambda>r. f r = c) rows))"
    by (simp add: sum_list_addf)
  also have "\<dots> = 1 + length rows"
    using Cons by (simp add: sum_list_indicator)
  finally show ?case by simp
qed

lemma sum_group_count: "sum_list (map snd (group_count rows)) = length rows"
proof -
  have "sum_list (map snd (group_count rows)) =
          (\<Sum>c\<leftarrow>remdups (map category rows). length (filter (\<lambda>r. category r = c) rows))"
    by (simp add: group_count_def comp_def)
  also have "\<dots> = length rows"
    by (rule sum_list_group) simp_all
  finally show ?thesis .
qed

text \<open>
  C10, as the code has it.  When the two window queries of \<open>get_stats\<close> read the
  same second off the database clock, \<open>week_checkins\<close> is the sum of the counts in
  \<open>category_counts\<close>.
\<close>

theorem week_checkins_sum_same_second:
  assumes "CURRENT_TIMESTAMP k1 = CURRENT_TIMESTAMP k2"
  shows "week_checkins (get_stats db k1 k2) =
           sum_list (map snd (category_counts (get_stats db k1 k2)))"
  using assms by (simp add: get_stats_def week_ago_def sum_group_count)

theorem week_checkins_sum_same_second_witness:
  "CURRENT_TIMESTAMP clock_utc = CURRENT_TIMESTAMP clock_utc \<and>
   week_checkins (get_stats week_old_db clock_utc clock_utc) = 1 \<and>
   sum_list (map snd (category_counts (get_stats week_old_db clock_utc clock_utc))) = 1"
proof -
  have "week_checkins (get_stats week_old_db clock_utc clock_utc) = 1"
    by (simp add: get_stats_def week_ago_def week_old_db_def CURRENT_TIMESTAMP_def clock_utc_def)
  with week_checkins_sum_same_second [of clock_utc clock_utc week_old_db] show ?thesis
    by simp
qed

text \<open>
  C10 as stated fails: a check-in made exactly seven days before the first query
  is counted by it, and no longer by the second query when the database clock has
  moved on to the next second in between.
\<close>

theorem week_checkins_sum_clock_moved:
  "week_checkins (get_stats week_old_db clock_utc clock_utc_later) = 1 \<and>
   sum_list (map snd (category_counts (get_stats week_old_db clock_utc clock_utc_later))) = 0"
  by (simp add: get_stats_def week_ago_def week_old_db_def CURRENT_TIMESTAMP_def clock_utc_def
      clock_utc_later_def group_count_def)

end
